theory Spec2Isabelle
  imports Complex_Main "HOL-Library.Code_Target_Numeral"
begin

section \<open>Strings of the program\<close>

text \<open>
  The parser of \<^verbatim>\<open>TestComponentBulkEntry.tsx\<close> works on JavaScript strings, which are
  sequences of UTF-16 code units. A code unit is modelled by its number, so the characters
  of the expressions that lie outside ASCII (the en dash, the comparison signs
  \<^verbatim>\<open>U+2264\<close> and \<^verbatim>\<open>U+2265\<close>, the Greek mu) are ordinary members of the
  alphabet. \<open>js\<close> turns an ASCII literal into such a string.
\<close>

type_synonym jchar = nat
type_synonym jstring = "nat list"

definition js :: "string \<Rightarrow> jstring" where
  "js s = map of_char s"

definition cu :: "char \<Rightarrow> jchar" where
  "cu c = of_char c"

subsection \<open>Character classes\<close>

text \<open>\<^verbatim>\<open>\s\<close> of a regular expression, also the characters removed by \<^verbatim>\<open>trim()\<close>:
  WhiteSpace and LineTerminator of ECMAScript.\<close>

definition cc_space :: "jchar \<Rightarrow> bool" where
  "cc_space c = ((9 \<le> c \<and> c \<le> 13) \<or> c = 32 \<or> c = 160 \<or> c = 5760 \<or> (8192 \<le> c \<and> c \<le> 8202)
     \<or> c = 8232 \<or> c = 8233 \<or> c = 8239 \<or> c = 8287 \<or> c = 12288 \<or> c = 65279)"

text \<open>The dot: every code unit but the four line terminators.\<close>

definition cc_dot :: "jchar \<Rightarrow> bool" where
  "cc_dot c = (c \<noteq> 10 \<and> c \<noteq> 13 \<and> c \<noteq> 8232 \<and> c \<noteq> 8233)"

definition cc_digit :: "jchar \<Rightarrow> bool" where
  "cc_digit c = (48 \<le> c \<and> c \<le> 57)"

definition cc_upper :: "jchar \<Rightarrow> bool" where
  "cc_upper c = (65 \<le> c \<and> c \<le> 90)"

definition cc_lower :: "jchar \<Rightarrow> bool" where
  "cc_lower c = (97 \<le> c \<and> c \<le> 122)"

definition cc_alpha :: "jchar \<Rightarrow> bool" where
  "cc_alpha c = (cc_upper c \<or> cc_lower c)"

definition cc_alnum :: "jchar \<Rightarrow> bool" where
  "cc_alnum c = (cc_alpha c \<or> cc_digit c)"

text \<open>\<^verbatim>\<open>\w\<close>, which decides the word boundary \<^verbatim>\<open>\b\<close>.\<close>

definition cc_word :: "jchar \<Rightarrow> bool" where
  "cc_word c = (cc_alnum c \<or> c = 95)"

text \<open>\<^verbatim>\<open>[0-9.,]\<close> of \<^verbatim>\<open>NUMERIC_VALUE\<close>.\<close>

definition cc_num :: "jchar \<Rightarrow> bool" where
  "cc_num c = (cc_digit c \<or> c = 46 \<or> c = 44)"

text \<open>\<^verbatim>\<open>[a-zA-Z0-9/%\<mu>]\<close> of \<^verbatim>\<open>UNIT_PATTERN\<close> under the flag \<^verbatim>\<open>i\<close>: the Greek small mu
  (956) brings the two code units with the same upper case, the micro sign (181) and the
  capital mu (924).\<close>

definition cc_unit :: "jchar \<Rightarrow> bool" where
  "cc_unit c = (cc_alnum c \<or> c = 47 \<or> c = 37 \<or> c = 956 \<or> c = 181 \<or> c = 924)"

text \<open>\<^verbatim>\<open>RANGE_SEPARATOR\<close>: hyphen or en dash; \<^verbatim>\<open>COMPARISON_OP\<close>: the four signs.\<close>

definition cc_sep :: "jchar \<Rightarrow> bool" where
  "cc_sep c = (c = 45 \<or> c = 8211)"

definition cc_cmp :: "jchar \<Rightarrow> bool" where
  "cc_cmp c = (c = 60 \<or> c = 62 \<or> c = 8804 \<or> c = 8805)"

definition cc_delim :: "jchar \<Rightarrow> bool" where
  "cc_delim c = (c = 44 \<or> c = 9)"

definition cc_punct :: "jchar \<Rightarrow> bool" where
  "cc_punct c = (c = 44 \<or> c = 59 \<or> c = 58)"

definition cc_paren :: "jchar \<Rightarrow> bool" where
  "cc_paren c = (c = 40 \<or> c = 41)"

text \<open>Comparison of an ASCII letter of a pattern with a code unit of the input under the
  flag \<^verbatim>\<open>i\<close>: both are put in upper case; a code unit outside ASCII never becomes an
  ASCII letter there.\<close>

definition fold_case :: "jchar \<Rightarrow> jchar" where
  "fold_case c = (if cc_lower c then c - 32 else c)"

subsection \<open>String operations of the runtime\<close>

definition trim :: "jstring \<Rightarrow> jstring" where
  "trim s = rev (dropWhile cc_space (rev (dropWhile cc_space s)))"

text \<open>\<^verbatim>\<open>toLowerCase()\<close>. The program applies it to a status word matched by an ASCII
  pattern and to a line that is then searched for ASCII keywords. ASCII capitals are
  lowered; so are the two code units outside ASCII that have an ASCII letter in their lower
  case (\<^verbatim>\<open>U+0130\<close>, \<^verbatim>\<open>U+212A\<close>). Any other code unit is kept: its lower case has no ASCII
  letter, which is all the uses above can observe.\<close>

definition lower_unit :: "jchar \<Rightarrow> jstring" where
  "lower_unit c = (if cc_upper c then [c + 32] else if c = 304 then [105, 775]
     else if c = 8490 then [107] else [c])"

definition toLowerCase :: "jstring \<Rightarrow> jstring" where
  "toLowerCase s = concat (map lower_unit s)"

text \<open>\<^verbatim>\<open>s.includes(k)\<close>.\<close>

fun str_includes :: "jstring \<Rightarrow> jstring \<Rightarrow> bool" where
  "str_includes [] k = (k = [])"
| "str_includes (c # s) k = (take (length k) (c # s) = k \<or> str_includes s k)"

text \<open>\<^verbatim>\<open>text.split('\n')\<close>: the pieces between line feeds, the last one possibly empty.\<close>

fun split_lines :: "jstring \<Rightarrow> jstring list" where
  "split_lines [] = [[]]"
| "split_lines (c # s) =
     (if c = 10 then [] # split_lines s
      else (case split_lines s of l # ls \<Rightarrow> (c # l) # ls | [] \<Rightarrow> [[c]]))"

section \<open>Regular expressions\<close>

text \<open>
  The expressions of the program use atoms that consume one code unit, sequence,
  alternative, the greedy option, greedy and lazy repetition of a one-unit atom, capturing
  groups and the assertions \<^verbatim>\<open>^\<close>, \<^verbatim>\<open>$\<close>, \<^verbatim>\<open>\b\<close>. \<open>Star True p\<close> is the greedy
  \<^verbatim>\<open>p*\<close>, \<open>Star False p\<close> the lazy \<^verbatim>\<open>p*?\<close>.
\<close>

datatype regex =
    Eps
  | Chr "jchar \<Rightarrow> bool"
  | Cat regex regex
  | Alt regex regex
  | Opt regex
  | Star bool "jchar \<Rightarrow> bool"
  | Grp nat regex
  | Bol
  | Eol
  | Wordb

text \<open>
  The state of a match: the code unit before the position (none at the start of the
  string), the input still to read, the groups closed so far (the latest first) and the
  groups that are open, each with the units it has read, in reverse.
\<close>

datatype mstate = MS "jchar option" jstring "(nat \<times> jstring) list" "(nat \<times> jstring) list"

fun ms_rest :: "mstate \<Rightarrow> jstring" where
  "ms_rest (MS pv s cs opn) = s"

fun ms_caps :: "mstate \<Rightarrow> (nat \<times> jstring) list" where
  "ms_caps (MS pv s cs opn) = cs"


fun feed :: "jchar \<Rightarrow> (nat \<times> jstring) list \<Rightarrow> (nat \<times> jstring) list" where
  "feed c [] = []"
| "feed c ((i, acc) # opn) = (i, c # acc) # feed c opn"

fun close_grp :: "mstate \<Rightarrow> mstate" where
  "close_grp (MS pv s cs []) = MS pv s cs []"
| "close_grp (MS pv s cs ((i, acc) # opn)) = MS pv s ((i, rev acc) # cs) opn"

text \<open>
  The matcher follows the backtracking semantics of ECMAScript, which is written with
  continuations: \<open>k\<close> is the rest of the expression, and a choice point tries its second
  branch only when the first one fails together with everything after it. A failed branch
  leaves no trace, as the state is passed along. The greedy star reads a unit and repeats
  before it tries to go on; the lazy star tries to go on first.
\<close>

fun gstar :: "(jchar \<Rightarrow> bool) \<Rightarrow> jchar option \<Rightarrow> jstring \<Rightarrow> (nat \<times> jstring) list \<Rightarrow>
    (nat \<times> jstring) list \<Rightarrow> (mstate \<Rightarrow> 'a option) \<Rightarrow> 'a option" where
  "gstar p pv [] cs opn k = k (MS pv [] cs opn)"
| "gstar p pv (c # s) cs opn k =
     (if p c then
        (case gstar p (Some c) s cs (feed c opn) k of
           Some x \<Rightarrow> Some x
         | None \<Rightarrow> k (MS pv (c # s) cs opn))
      else k (MS pv (c # s) cs opn))"

fun lstar :: "(jchar \<Rightarrow> bool) \<Rightarrow> jchar option \<Rightarrow> jstring \<Rightarrow> (nat \<times> jstring) list \<Rightarrow>
    (nat \<times> jstring) list \<Rightarrow> (mstate \<Rightarrow> 'a option) \<Rightarrow> 'a option" where
  "lstar p pv [] cs opn k = k (MS pv [] cs opn)"
| "lstar p pv (c # s) cs opn k =
     (case k (MS pv (c # s) cs opn) of
        Some x \<Rightarrow> Some x
      | None \<Rightarrow> if p c then lstar p (Some c) s cs (feed c opn) k else None)"

definition at_word :: "jchar option \<Rightarrow> bool" where
  "at_word x = (case x of None \<Rightarrow> False | Some c \<Rightarrow> cc_word c)"

fun head_opt :: "jstring \<Rightarrow> jchar option" where
  "head_opt [] = None"
| "head_opt (c # s) = Some c"

text \<open>Every optional part of the program's expressions reads at least one unit when it
  matches, so the rule of ECMAScript that rejects an empty iteration never applies.\<close>

fun rm :: "regex \<Rightarrow> mstate \<Rightarrow> (mstate \<Rightarrow> 'a option) \<Rightarrow> 'a option" where
  "rm Eps st k = k st"
| "rm (Chr p) (MS pv [] cs opn) k = None"
| "rm (Chr p) (MS pv (c # s) cs opn) k =
     (if p c then k (MS (Some c) s cs (feed c opn)) else None)"
| "rm (Cat r1 r2) st k = rm r1 st (\<lambda>st'. rm r2 st' k)"
| "rm (Alt r1 r2) st k = (case rm r1 st k of Some x \<Rightarrow> Some x | None \<Rightarrow> rm r2 st k)"
| "rm (Opt r) st k = (case rm r st k of Some x \<Rightarrow> Some x | None \<Rightarrow> k st)"
| "rm (Star greedy p) (MS pv s cs opn) k =
     (if greedy then gstar p pv s cs opn k else lstar p pv s cs opn k)"
| "rm (Grp i r) (MS pv s cs opn) k =
     rm r (MS pv s cs ((i, []) # opn)) (\<lambda>st'. k (close_grp st'))"
| "rm Bol (MS pv s cs opn) k = (if pv = None then k (MS pv s cs opn) else None)"
| "rm Eol (MS pv s cs opn) k = (if s = [] then k (MS pv s cs opn) else None)"
| "rm Wordb (MS pv s cs opn) k =
     (if at_word pv \<noteq> at_word (head_opt s) then k (MS pv s cs opn) else None)"

text \<open>
  The result of \<^verbatim>\<open>s.match(re)\<close> for an expression without the flag \<^verbatim>\<open>g\<close>: the leftmost
  start position at which the expression matches. It is given as the text before the match,
  the groups, and the text after the match; \<open>None\<close> is JavaScript's \<^verbatim>\<open>null\<close>.
\<close>

record rmatch =
  before :: jstring
  groups :: "(nat \<times> jstring) list"
  after :: jstring

fun search_from :: "regex \<Rightarrow> jstring \<Rightarrow> jstring \<Rightarrow> rmatch option" where
  "search_from r pre [] =
     (case rm r (MS (head_opt pre) [] [] []) Some of
        Some st \<Rightarrow> Some \<lparr>before = rev pre, groups = ms_caps st, after = ms_rest st\<rparr>
      | None \<Rightarrow> None)"
| "search_from r pre (c # s) =
     (case rm r (MS (head_opt pre) (c # s) [] []) Some of
        Some st \<Rightarrow> Some \<lparr>before = rev pre, groups = ms_caps st, after = ms_rest st\<rparr>
      | None \<Rightarrow> search_from r (c # pre) s)"

definition re_match :: "regex \<Rightarrow> jstring \<Rightarrow> rmatch option" where
  "re_match r s = search_from r [] s"

text \<open>\<open>grp m i\<close> is \<^verbatim>\<open>match[i]\<close>; \<open>None\<close> is \<^verbatim>\<open>undefined\<close>, a group that took no part.\<close>

definition grp :: "rmatch \<Rightarrow> nat \<Rightarrow> jstring option" where
  "grp m i = map_of (groups m) i"

text \<open>\<^verbatim>\<open>s.replace(re, '')\<close> for an expression without the flag \<^verbatim>\<open>g\<close>: the first match is
  cut out.\<close>

definition re_remove_first :: "regex \<Rightarrow> jstring \<Rightarrow> jstring" where
  "re_remove_first r s = (case re_match r s of None \<Rightarrow> s | Some m \<Rightarrow> before m @ after m)"

subsection \<open>Building blocks\<close>

definition ch :: "char \<Rightarrow> regex" where
  "ch x = Chr (\<lambda>c. c = cu x)"

definition ch_i :: "char \<Rightarrow> regex" where
  "ch_i x = Chr (\<lambda>c. fold_case c = fold_case (cu x))"

definition seq :: "regex list \<Rightarrow> regex" where
  "seq rs = foldr Cat rs Eps"

definition word_i :: "string \<Rightarrow> regex" where
  "word_i w = seq (map ch_i w)"

definition plus :: "(jchar \<Rightarrow> bool) \<Rightarrow> regex" where
  "plus p = Cat (Chr p) (Star True p)"

definition plus_lazy :: "(jchar \<Rightarrow> bool) \<Rightarrow> regex" where
  "plus_lazy p = Cat (Chr p) (Star False p)"

definition star :: "(jchar \<Rightarrow> bool) \<Rightarrow> regex" where
  "star p = Star True p"

definition star_lazy :: "(jchar \<Rightarrow> bool) \<Rightarrow> regex" where
  "star_lazy p = Star False p"

subsection \<open>The expressions of the program\<close>

text \<open>\<^verbatim>\<open>UNIT_PATTERN\<close>:
  \<^verbatim>\<open>[a-zA-Z0-9/%u]+(?:/[a-zA-Z0-9]+)?|x10E\d+/[a-zA-Z]+\<close> (with the Greek mu for u). It
  is always used inside a group, so the alternative stays local to it.\<close>

definition UNIT_PATTERN :: regex where
  "UNIT_PATTERN =
     Alt (seq [plus cc_unit, Opt (seq [ch CHR ''/'', plus cc_alnum])])
         (seq [word_i ''x10E'', plus cc_digit, ch CHR ''/'', plus cc_alpha])"

text \<open>\<^verbatim>\<open>TEST_NAME\<close> is \<^verbatim>\<open>(.+?)\<close>, \<^verbatim>\<open>NUMERIC_VALUE\<close> is \<^verbatim>\<open>([0-9.,]+)\<close>; the number of
  the group is its position in the whole expression.\<close>

definition TEST_NAME :: regex where
  "TEST_NAME = Grp 1 (plus_lazy cc_dot)"

definition NUMERIC_VALUE :: "nat \<Rightarrow> regex" where
  "NUMERIC_VALUE i = Grp i (plus cc_num)"

definition STATUS_WORDS :: regex where
  "STATUS_WORDS =
     Alt (word_i ''normal'') (Alt (word_i ''high'') (Alt (word_i ''low'')
       (Alt (word_i ''critical'') (Alt (word_i ''abnormal'') (word_i ''borderline'')))))"

text \<open>Pattern 1, \<^verbatim>\<open>FULL_PATTERN\<close>: name, colon, value, optional unit, and an optional
  parenthesis that is a numeric range (groups 4 and 5, with an optional prefix ending in
  "range...:"), a comparison (group 6), the words "Not Estab." or any other text
  (group 7, with its parentheses).\<close>

definition FULL_PATTERN :: regex where
  "FULL_PATTERN =
     seq [Bol, TEST_NAME, ch CHR '':'', star cc_space, NUMERIC_VALUE 2, star cc_space,
          Opt (Grp 3 UNIT_PATTERN), star cc_space,
          Opt (Alt (seq [ch CHR ''('',
                         Opt (seq [star_lazy cc_dot, word_i ''range'', star_lazy cc_dot,
                                   ch CHR '':'', star cc_space]),
                         NUMERIC_VALUE 4, star cc_space, Chr cc_sep, star cc_space,
                         NUMERIC_VALUE 5, star_lazy cc_dot, ch CHR '')''])
              (Alt (seq [ch CHR ''('', Grp 6 (seq [Chr cc_cmp, star cc_space, plus cc_num]),
                         ch CHR '')''])
              (Alt (seq [ch CHR ''('', word_i ''Not'', plus cc_space, word_i ''Estab'',
                         Opt (ch CHR ''.''), ch CHR '')''])
                   (Grp 7 (seq [ch CHR ''('', star (\<lambda>c. c \<noteq> 41), ch CHR '')''])))))]"

text \<open>Pattern 2, \<^verbatim>\<open>TABULAR_PATTERN\<close>: name, value and unit separated by white space, then
  a numeric range (groups 4 and 5) or a comparison (group 6), then an optional status word
  (group 7).\<close>

definition TABULAR_PATTERN :: regex where
  "TABULAR_PATTERN =
     seq [Bol, TEST_NAME, plus cc_space, NUMERIC_VALUE 2, plus cc_space, Grp 3 UNIT_PATTERN,
          plus cc_space,
          Alt (seq [NUMERIC_VALUE 4, star cc_space, Chr cc_sep, star cc_space, NUMERIC_VALUE 5])
              (Grp 6 (seq [Chr cc_cmp, star cc_space, plus cc_num])),
          star cc_space, Opt (Grp 7 STATUS_WORDS)]"

text \<open>Pattern 3, \<^verbatim>\<open>SIMPLE_PATTERN\<close>.\<close>

definition SIMPLE_PATTERN :: regex where
  "SIMPLE_PATTERN =
     seq [Bol, TEST_NAME, plus cc_space, NUMERIC_VALUE 2, plus cc_space, Grp 3 UNIT_PATTERN]"

text \<open>Pattern 4, \<^verbatim>\<open>CSV_PATTERN\<close>: name, value, unit and up to two further fields (groups 4
  and 5) separated by commas or tabs, up to the end of the line.\<close>

definition CSV_PATTERN :: regex where
  "CSV_PATTERN =
     seq [Bol, TEST_NAME, plus cc_delim, NUMERIC_VALUE 2, plus cc_delim, Grp 3 UNIT_PATTERN,
          Opt (seq [plus cc_delim, Grp 4 (star_lazy (\<lambda>c. \<not> cc_delim c))]),
          Opt (seq [plus cc_delim, Grp 5 (star_lazy (\<lambda>c. \<not> cc_delim c))]),
          Eol]"

text \<open>The expressions written inside \<^verbatim>\<open>parseText\<close>.\<close>

definition TRAILING_PUNCT :: regex where
  \<comment> \<open>\<^verbatim>\<open>/[,;:]+$/\<close>\<close>
  "TRAILING_PUNCT = seq [plus cc_punct, Eol]"

definition COMPARISON :: regex where
  \<comment> \<open>\<^verbatim>\<open>/^([<>\u2264\u2265])\s*([0-9.,]+)$/\<close>\<close>
  "COMPARISON = seq [Bol, Grp 1 (Chr cc_cmp), star cc_space, Grp 2 (plus cc_num), Eol]"

definition NOT_ESTAB :: regex where
  \<comment> \<open>\<^verbatim>\<open>/\(Not\s+Estab\.?\)/i\<close>\<close>
  "NOT_ESTAB = seq [ch CHR ''('', word_i ''Not'', plus cc_space, word_i ''Estab'',
                    Opt (ch CHR ''.''), ch CHR '')'']"

definition STATUS_BRACKET :: regex where
  \<comment> \<open>\<^verbatim>\<open>/\[(high|low|critical|abnormal|borderline)\]/i\<close>\<close>
  "STATUS_BRACKET =
     seq [ch CHR ''['',
          Grp 1 (Alt (word_i ''high'') (Alt (word_i ''low'') (Alt (word_i ''critical'')
                   (Alt (word_i ''abnormal'') (word_i ''borderline''))))),
          ch CHR '']'']"

definition STATUS_PLAIN :: regex where
  \<comment> \<open>\<^verbatim>\<open>/\b(normal|high|low|critical|abnormal|borderline)\b/i\<close>\<close>
  "STATUS_PLAIN = seq [Wordb, Grp 1 STATUS_WORDS, Wordb]"

definition ABBREVIATION :: regex where
  \<comment> \<open>\<^verbatim>\<open>/\(([A-Z0-9]+)\)/\<close>, without the flag \<^verbatim>\<open>i\<close>\<close>
  "ABBREVIATION = seq [ch CHR ''('', Grp 1 (plus (\<lambda>c. cc_upper c \<or> cc_digit c)), ch CHR '')'']"

definition PARENTHETICAL :: regex where
  \<comment> \<open>\<^verbatim>\<open>/\s*\([^)]+\)/\<close>\<close>
  "PARENTHETICAL = seq [star cc_space, ch CHR ''('', plus (\<lambda>c. c \<noteq> 41), ch CHR '')'']"

definition FALLBACK :: regex where
  \<comment> \<open>\<^verbatim>\<open>/^(.+?)\s+([0-9.,]+)/\<close>\<close>
  "FALLBACK = seq [Bol, TEST_NAME, plus cc_space, NUMERIC_VALUE 2]"

section \<open>Numbers\<close>

text \<open>
  A JavaScript number that is not \<^verbatim>\<open>NaN\<close>. Finite numbers are exact rationals: the
  rounding of \<^verbatim>\<open>parseFloat\<close> to a double is not modelled. \<^verbatim>\<open>NaN\<close> is the \<open>None\<close> of
  \<open>parseFloat\<close>; the program tests for it before it stores a number.
\<close>

datatype jsnum = Fin rat | PInf | NInf

fun js_lt :: "jsnum \<Rightarrow> jsnum \<Rightarrow> bool" where
  "js_lt (Fin a) (Fin b) = (a < b)"
| "js_lt (Fin a) PInf = True"
| "js_lt (Fin a) NInf = False"
| "js_lt PInf b = False"
| "js_lt NInf NInf = False"
| "js_lt NInf b = True"

definition js_gt :: "jsnum \<Rightarrow> jsnum \<Rightarrow> bool" where
  "js_gt a b = js_lt b a"


definition digits_val :: "jstring \<Rightarrow> nat" where
  "digits_val ds = foldl (\<lambda>a d. 10 * a + (d - 48)) 0 ds"

definition pow10 :: "int \<Rightarrow> rat" where
  "pow10 e = (if 0 \<le> e then 10 ^ nat e else 1 / 10 ^ nat (- e))"

text \<open>The exponent part that follows a mantissa: \<^verbatim>\<open>e\<close> or \<^verbatim>\<open>E\<close>, an optional sign and at
  least one digit; anything else is not part of the number.\<close>

definition exponent_of :: "jstring \<Rightarrow> int" where
  "exponent_of r =
     (case r of [] \<Rightarrow> 0
      | e # r1 \<Rightarrow>
          if e = 101 \<or> e = 69 then
            (case r1 of [] \<Rightarrow> 0
             | sg # r2 \<Rightarrow>
                 if sg = 43 \<or> sg = 45 then
                   (if takeWhile cc_digit r2 = [] then 0
                    else if sg = 45 then - int (digits_val (takeWhile cc_digit r2))
                    else int (digits_val (takeWhile cc_digit r2)))
                 else if takeWhile cc_digit r1 = [] then 0
                 else int (digits_val (takeWhile cc_digit r1)))
          else 0)"

text \<open>\<^verbatim>\<open>parseFloat\<close>: leading white space is skipped, then the longest prefix that is a
  decimal literal is read: an optional sign, then \<^verbatim>\<open>Infinity\<close> or digits with an
  optional fraction and exponent. Without any digit the result is \<^verbatim>\<open>NaN\<close>.\<close>

definition parseFloat :: "jstring \<Rightarrow> jsnum option" where
  "parseFloat s =
     (let t = dropWhile cc_space s;
          neg = (head_opt t = Some 45);
          u = (if head_opt t = Some 45 \<or> head_opt t = Some 43 then tl t else t)
      in if take 8 u = js ''Infinity'' then Some (if neg then NInf else PInf)
         else
           let ip = takeWhile cc_digit u;
               r1 = dropWhile cc_digit u;
               fp = (case r1 of [] \<Rightarrow> [] | c # r \<Rightarrow> if c = 46 then takeWhile cc_digit r else []);
               r2 = (case r1 of [] \<Rightarrow> [] | c # r \<Rightarrow> if c = 46 then dropWhile cc_digit r else r1);
               m = rat_of_nat (digits_val ip) + rat_of_nat (digits_val fp) / 10 ^ length fp
           in if ip = [] \<and> fp = [] then None
              else Some (Fin ((if neg then - m else m) * pow10 (exponent_of r2))))"

text \<open>\<^verbatim>\<open>s.replace(/,/g, '')\<close>.\<close>

definition strip_commas :: "jstring \<Rightarrow> jstring" where
  "strip_commas s = filter (\<lambda>c. c \<noteq> 44) s"

text \<open>Truthiness, which the program uses to test for presence: \<^verbatim>\<open>undefined\<close> and the empty
  string are falsy; so are \<^verbatim>\<open>undefined\<close>, \<^verbatim>\<open>null\<close> and zero among the numbers.\<close>

definition truthy :: "jstring option \<Rightarrow> bool" where
  "truthy x = (case x of None \<Rightarrow> False | Some s \<Rightarrow> s \<noteq> [])"

definition num_truthy :: "jsnum option \<Rightarrow> bool" where
  "num_truthy x = (case x of None \<Rightarrow> False | Some n \<Rightarrow> n \<noteq> Fin 0)"

text \<open>The text of a group that is known to be truthy.\<close>

definition group_text :: "jstring option \<Rightarrow> jstring" where
  "group_text x = (case x of None \<Rightarrow> [] | Some s \<Rightarrow> s)"

section \<open>The parsed record\<close>

text \<open>
  \<^verbatim>\<open>ParsedTestComponent\<close>. An optional field that is absent (\<^verbatim>\<open>undefined\<close>) is \<open>None\<close>.
  \<open>val\<close> is the field \<^verbatim>\<open>value\<close>, \<open>unit_text\<close> the field \<^verbatim>\<open>unit\<close>, \<open>abbrev\<close> the
  field \<^verbatim>\<open>abbreviation\<close>.
\<close>

record component =
  test_name :: jstring
  abbrev :: "jstring option"
  canonical_test_name :: "jstring option"
  val :: jsnum
  unit_text :: jstring
  ref_range_min :: "jsnum option"
  ref_range_max :: "jsnum option"
  ref_range_text :: "jstring option"
  status :: "jstring option"
  category :: "jstring option"
  loinc_code :: "jstring option"
  original_line :: jstring
  confidence :: rat
  issues :: "jstring list"

text \<open>\<^verbatim>\<open>parseSettings\<close>, the state of the React component that \<^verbatim>\<open>parseText\<close> reads.\<close>

record settings =
  detectHeaders :: bool
  assumeFirstColumnIsName :: bool
  detectUnits :: bool
  detectRanges :: bool
  skipEmptyLines :: bool
  caseSensitive :: bool

datatype pattern_name = fullPattern | tabularPattern | simplePattern | csvPattern

definition patterns :: "(pattern_name \<times> regex) list" where
  "patterns = [(fullPattern, FULL_PATTERN), (tabularPattern, TABULAR_PATTERN),
               (simplePattern, SIMPLE_PATTERN), (csvPattern, CSV_PATTERN)]"

section \<open>One pattern on one line\<close>

text \<open>
  The head of the loop body: name, value and unit are read from groups 1 to 3. The result
  is \<open>None\<close> where the source says \<^verbatim>\<open>continue\<close>: the name or the value text is empty, or
  the value is not a number.
\<close>

definition match_fields :: "rmatch \<Rightarrow> (jstring \<times> jsnum \<times> jstring) option" where
  "match_fields m =
     (let testName = map_option (\<lambda>s. re_remove_first TRAILING_PUNCT (trim s)) (grp m 1);
          valueStr = map_option strip_commas (grp m 2);
          unit = (case grp m 3 of None \<Rightarrow> [] | Some u \<Rightarrow> trim u)
      in case (testName, valueStr) of
           (Some tn, Some vs) \<Rightarrow>
             if tn = [] \<or> vs = [] then None
             else (case parseFloat vs of None \<Rightarrow> None | Some v \<Rightarrow> Some (tn, v, unit))
         | _ \<Rightarrow> None)"

definition new_component :: "jstring \<Rightarrow> jsnum \<Rightarrow> jstring \<Rightarrow> jstring \<Rightarrow> component" where
  "new_component testName v unit trimmedLine =
     \<lparr>test_name = testName, abbrev = None, canonical_test_name = None, val = v,
      unit_text = unit, ref_range_min = None, ref_range_max = None, ref_range_text = None,
      status = None, category = None, loinc_code = None, original_line = trimmedLine,
      confidence = 0, issues = []\<rparr>"

text \<open>The local variable \<^verbatim>\<open>confidence\<close> travels with the record through the steps of the
  body; it starts from the base value, the unit and the pattern.\<close>

definition base_confidence :: "pattern_name \<Rightarrow> jstring \<Rightarrow> rat" where
  "base_confidence pn unit =
     0.5 + (if unit \<noteq> [] then 0.2 else 0) + (if pn = fullPattern then 0.3 else 0)"

text \<open>The bound of a comparison text such as \<^verbatim>\<open>< 0.41\<close>.\<close>

definition comparison_bound :: "jstring \<Rightarrow> component \<Rightarrow> component" where
  "comparison_bound compText p =
     (case re_match COMPARISON compText of
        None \<Rightarrow> p
      | Some cm \<Rightarrow>
          (case (grp cm 1, grp cm 2) of
             (Some [opr], Some numText) \<Rightarrow>
               (case parseFloat (strip_commas numText) of
                  None \<Rightarrow> p
                | Some num \<Rightarrow>
                    if opr = 60 \<or> opr = 8804 then p\<lparr>ref_range_max := Some num\<rparr>
                    else if opr = 62 \<or> opr = 8805 then p\<lparr>ref_range_min := Some num\<rparr>
                    else p)
           | _ \<Rightarrow> p))"

text \<open>The reference range, from groups 4 to 7 whatever pattern matched.\<close>

definition range_step :: "rmatch \<Rightarrow> component \<times> rat \<Rightarrow> component \<times> rat" where
  "range_step m pc =
     (case pc of (p, c) \<Rightarrow>
        if truthy (grp m 4) \<and> truthy (grp m 5) then
          (case (parseFloat (strip_commas (group_text (grp m 4))),
                 parseFloat (strip_commas (group_text (grp m 5)))) of
             (Some rangeMin, Some rangeMax) \<Rightarrow>
               (p\<lparr>ref_range_min := Some rangeMin, ref_range_max := Some rangeMax\<rparr>, c + 0.2)
           | _ \<Rightarrow> (p, c))
        else if truthy (grp m 6) then
          (comparison_bound (trim (group_text (grp m 6)))
             (p\<lparr>ref_range_text := Some (trim (group_text (grp m 6)))\<rparr>), c + 0.1)
        else if truthy (grp m 7) then
          (p\<lparr>ref_range_text := Some (trim (filter (\<lambda>x. \<not> cc_paren x) (group_text (grp m 7))))\<rparr>,
           c + 0.05)
        else (p, c))"

text \<open>"Not Estab." anywhere in the line, looked for when the three range fields are
  falsy.\<close>

definition not_estab_step :: "jstring \<Rightarrow> component \<times> rat \<Rightarrow> component \<times> rat" where
  "not_estab_step trimmedLine pc =
     (case pc of (p, c) \<Rightarrow>
        if \<not> num_truthy (ref_range_min p) \<and> \<not> num_truthy (ref_range_max p)
           \<and> \<not> truthy (ref_range_text p) then
          (case re_match NOT_ESTAB trimmedLine of
             Some nm \<Rightarrow> (p\<lparr>ref_range_text := Some (js ''Not Estab.'')\<rparr>, c + 0.1)
           | None \<Rightarrow> (p, c))
        else (p, c))"

text \<open>The status written in the line: in brackets first, then as a plain word.\<close>

definition status_step :: "jstring \<Rightarrow> component \<times> rat \<Rightarrow> component \<times> rat" where
  "status_step trimmedLine pc =
     (case pc of (p, c) \<Rightarrow>
        (case re_match STATUS_BRACKET trimmedLine of
           Some sm \<Rightarrow> (p\<lparr>status := map_option toLowerCase (grp sm 1)\<rparr>, c + 0.1)
         | None \<Rightarrow>
             (case re_match STATUS_PLAIN trimmedLine of
                Some sm \<Rightarrow> (p\<lparr>status := map_option toLowerCase (grp sm 1)\<rparr>, c + 0.05)
              | None \<Rightarrow> (p, c))))"

text \<open>An abbreviation in parentheses inside the name.\<close>

definition abbreviation_step :: "jstring \<Rightarrow> component \<times> rat \<Rightarrow> component \<times> rat" where
  "abbreviation_step testName pc =
     (case pc of (p, c) \<Rightarrow>
        (case re_match ABBREVIATION testName of
           Some am \<Rightarrow>
             (p\<lparr>abbrev := grp am 1,
                test_name := trim (re_remove_first PARENTHETICAL testName)\<rparr>, c + 0.05)
         | None \<Rightarrow> (p, c)))"

text \<open>The status computed from the range when the line gave none. A bound counts when it
  is a number (\<^verbatim>\<open>typeof ... === 'number'\<close>), zero included.\<close>

definition auto_status :: "component \<Rightarrow> component" where
  "auto_status p =
     (if \<not> truthy (status p) then
        (case (ref_range_min p, ref_range_max p) of
           (Some mn, Some mx) \<Rightarrow>
             if js_gt (val p) mx then p\<lparr>status := Some (js ''high'')\<rparr>
             else if js_lt (val p) mn then p\<lparr>status := Some (js ''low'')\<rparr>
             else p\<lparr>status := Some (js ''normal'')\<rparr>
         | (None, Some mx) \<Rightarrow>
             p\<lparr>status := Some (if js_gt (val p) mx then js ''high'' else js ''normal'')\<rparr>
         | (Some mn, None) \<Rightarrow>
             p\<lparr>status := Some (if js_lt (val p) mn then js ''low'' else js ''normal'')\<rparr>
         | (None, None) \<Rightarrow> p)
      else p)"

definition build_component ::
    "pattern_name \<Rightarrow> rmatch \<Rightarrow> jstring \<Rightarrow> jstring \<Rightarrow> jsnum \<Rightarrow> jstring \<Rightarrow> component" where
  "build_component pn m trimmedLine testName v unit =
     (case abbreviation_step testName
             (status_step trimmedLine
               (not_estab_step trimmedLine
                 (range_step m
                   (new_component testName v unit trimmedLine, base_confidence pn unit)))) of
        (p, c) \<Rightarrow> (auto_status p)\<lparr>confidence := min c 1\<rparr>)"

text \<open>The loop over the patterns, in the order of the object: the first pattern that
  matches and passes the head of the body decides (\<^verbatim>\<open>break\<close>). \<open>first_match\<close> finds
  it, \<open>try_patterns\<close> builds the record from it.\<close>

fun first_match :: "(pattern_name \<times> regex) list \<Rightarrow> jstring \<Rightarrow>
    (pattern_name \<times> rmatch \<times> jstring \<times> jsnum \<times> jstring) option" where
  "first_match [] trimmedLine = None"
| "first_match ((pn, re) # ps) trimmedLine =
     (case re_match re trimmedLine of
        None \<Rightarrow> first_match ps trimmedLine
      | Some m \<Rightarrow>
          (case match_fields m of
             None \<Rightarrow> first_match ps trimmedLine
           | Some (testName, v, unit) \<Rightarrow> Some (pn, m, testName, v, unit)))"

definition try_patterns :: "(pattern_name \<times> regex) list \<Rightarrow> jstring \<Rightarrow> component option" where
  "try_patterns ps trimmedLine =
     (case first_match ps trimmedLine of
        None \<Rightarrow> None
      | Some (pn, m, testName, v, unit) \<Rightarrow>
          Some (build_component pn m trimmedLine testName v unit))"

section \<open>Fallback and validation\<close>

text \<open>The fallback for a line that no pattern accepted: a name and the first number
  after white space. Groups 1 and 2 take part in every match of the expression.\<close>

definition fallback :: "jstring \<Rightarrow> component option" where
  "fallback trimmedLine =
     (case re_match FALLBACK trimmedLine of
        None \<Rightarrow> None
      | Some fm \<Rightarrow>
          (case (grp fm 1, grp fm 2) of
             (Some g1, Some g2) \<Rightarrow>
               (case parseFloat (strip_commas g2) of
                  None \<Rightarrow> None
                | Some v \<Rightarrow>
                    Some ((new_component (re_remove_first TRAILING_PUNCT (trim g1)) v []
                             trimmedLine)
                          \<lparr>confidence := 0.2,
                           issues := [js ''Could not detect unit'',
                                      js ''Could not detect reference range'']\<rparr>))
           | _ \<Rightarrow> None))"

text \<open>The validation at the end of the body, in the four steps of the source.\<close>

definition check_name :: "component \<Rightarrow> component" where
  "check_name p =
     (if length (test_name p) < 2 then
        p\<lparr>issues := issues p @ [js ''Test name too short''],
          confidence := max 0 (confidence p - 0.3)\<rparr>
      else p)"

definition check_unit :: "component \<Rightarrow> component" where
  "check_unit p =
     (if unit_text p = [] then p\<lparr>issues := issues p @ [js ''Unit not detected'']\<rparr> else p)"

definition check_range :: "component \<Rightarrow> component" where
  "check_range p =
     (if \<not> num_truthy (ref_range_min p) \<and> \<not> num_truthy (ref_range_max p)
         \<and> \<not> truthy (ref_range_text p)
      then p\<lparr>issues := issues p @ [js ''Reference range not detected'']\<rparr> else p)"

definition reduce_confidence :: "component \<Rightarrow> component" where
  "reduce_confidence p =
     (if length (issues p) > 0 then
        p\<lparr>confidence :=
            max 0.1 (confidence p - min (rat_of_nat (length (issues p)) * 0.15) 0.5)\<rparr>
      else p)"

definition validate :: "component \<Rightarrow> component" where
  "validate p = reduce_confidence (check_range (check_unit (check_name p)))"

section \<open>The whole text\<close>

definition headerKeywords :: "jstring list" where
  "headerKeywords = [js ''test'', js ''name'', js ''value'', js ''result'', js ''unit'',
                     js ''range'', js ''status'', js ''reference'']"

definition isHeader :: "jstring \<Rightarrow> bool" where
  "isHeader trimmedLine = list_ex (\<lambda>keyword. str_includes (toLowerCase trimmedLine) keyword) headerKeywords"

text \<open>The record of a line before validation, from a pattern or else from the fallback.\<close>

definition extract_line :: "jstring \<Rightarrow> component option" where
  "extract_line trimmedLine =
     (case try_patterns patterns trimmedLine of
        Some p \<Rightarrow> Some p
      | None \<Rightarrow> fallback trimmedLine)"

text \<open>The body of \<^verbatim>\<open>lines.forEach\<close>: a line is skipped (empty after trimming, or a header in
  first place), gives a record, or counts as failed.\<close>

datatype line_outcome = Skipped | Failed | Parsed component

definition parse_line :: "settings \<Rightarrow> nat \<Rightarrow> jstring \<Rightarrow> line_outcome" where
  "parse_line cfg index line =
     (let trimmedLine = trim line in
      if trimmedLine = [] then Skipped
      else if detectHeaders cfg \<and> index = 0 \<and> isHeader trimmedLine then Skipped
      else (case extract_line trimmedLine of
              Some p \<Rightarrow> Parsed (validate p)
            | None \<Rightarrow> Failed))"

record parse_result =
  components :: "component list"
  failedLineCount :: nat

fun parse_lines :: "settings \<Rightarrow> nat \<Rightarrow> jstring list \<Rightarrow> parse_result \<Rightarrow> parse_result" where
  "parse_lines cfg index [] acc = acc"
| "parse_lines cfg index (line # ls) acc =
     parse_lines cfg (Suc index) ls
       (case parse_line cfg index line of
          Skipped \<Rightarrow> acc
        | Failed \<Rightarrow> acc\<lparr>failedLineCount := Suc (failedLineCount acc)\<rparr>
        | Parsed p \<Rightarrow> acc\<lparr>components := components acc @ [p]\<rparr>)"

definition parseText :: "settings \<Rightarrow> jstring \<Rightarrow> parse_result" where
  "parseText cfg text =
     parse_lines cfg 0
       (filter (\<lambda>line. if skipEmptyLines cfg then length (trim line) > 0 else True)
          (split_lines text))
       \<lparr>components = [], failedLineCount = 0\<rparr>"

section \<open>Enrichment from the test library\<close>

text \<open>
  \<^verbatim>\<open>TestLibraryItem\<close> of \<^verbatim>\<open>testLibraryTypes.ts\<close>, with the fields that the enrichment
  reads. The search function \<^verbatim>\<open>searchTests\<close> of \<^verbatim>\<open>constants/testLibrary\<close> is a parameter:
  it is given a name and a limit and returns the best matches.
\<close>

record library_item =
  lib_test_name :: jstring
  lib_abbreviation :: "jstring option"
  lib_test_code :: "jstring option"
  lib_default_unit :: jstring
  lib_category :: jstring

type_synonym search_fn = "jstring \<Rightarrow> nat \<Rightarrow> library_item list"

definition enrich_component :: "search_fn \<Rightarrow> component \<Rightarrow> component" where
  "enrich_component searchTests c =
     (case searchTests (test_name c) 1 of
        [] \<Rightarrow> c
      | t # ts \<Rightarrow>
          (let c1 = c\<lparr>canonical_test_name := Some (lib_test_name t)\<rparr>;
               c2 = (if \<not> truthy (abbrev c1) \<and> truthy (lib_abbreviation t)
                     then c1\<lparr>abbrev := lib_abbreviation t\<rparr> else c1);
               c3 = (if unit_text c2 = [] \<and> lib_default_unit t \<noteq> []
                     then c2\<lparr>unit_text := lib_default_unit t,
                             issues := remove1 (js ''Unit not detected'') (issues c2)\<rparr>
                     else c2);
               c4 = (if lib_category t \<noteq> [] then c3\<lparr>category := Some (lib_category t)\<rparr>
                     else c3)
           in if truthy (lib_test_code t) then c4\<lparr>loinc_code := lib_test_code t\<rparr> else c4))"


section \<open>The state of the entry form\<close>

text \<open>
  The part of the React state that the parse reads and writes, and the effect that parses
  the debounced text in automatic mode: it stores the failure count and the enriched
  records, or clears both when the text is blank; in manual mode it does nothing.
\<close>

datatype parse_mode = Auto | Manual


definition initial_settings :: settings where
  "initial_settings =
     \<lparr>detectHeaders = True, assumeFirstColumnIsName = True, detectUnits = True,
      detectRanges = True, skipEmptyLines = True, caseSensitive = False\<rparr>"


section \<open>Auxiliary definitions for the properties\<close>

text \<open>An issue text that reports a missing unit: the one seeded by the fallback and the
  one appended by the validation.\<close>

definition reports_missing_unit :: "jstring \<Rightarrow> bool" where
  "reports_missing_unit s = (s = js ''Could not detect unit'' \<or> s = js ''Unit not detected'')"





text \<open>An entry of a test library, for the examples.\<close>

definition hemoglobin_item :: library_item where
  "hemoglobin_item =
     \<lparr>lib_test_name = js ''Hemoglobin'', lib_abbreviation = Some (js ''HGB''),
      lib_test_code = Some (js ''718-7''), lib_default_unit = js ''g/dL'',
      lib_category = js ''hematology''\<rparr>"

section \<open>What each step leaves unchanged\<close>

lemma comparison_bound_frame:
  "original_line (comparison_bound t p) = original_line p"
  "val (comparison_bound t p) = val p"
  "status (comparison_bound t p) = status p"
  "canonical_test_name (comparison_bound t p) = canonical_test_name p"
  "test_name (comparison_bound t p) = test_name p"
  "unit_text (comparison_bound t p) = unit_text p"
  "issues (comparison_bound t p) = issues p"
  "ref_range_text (comparison_bound t p) = ref_range_text p"
  by (simp_all add: comparison_bound_def split: option.splits list.splits)

lemma range_step_frame:
  "original_line (fst (range_step m pc)) = original_line (fst pc)"
  "val (fst (range_step m pc)) = val (fst pc)"
  "status (fst (range_step m pc)) = status (fst pc)"
  "canonical_test_name (fst (range_step m pc)) = canonical_test_name (fst pc)"
  "test_name (fst (range_step m pc)) = test_name (fst pc)"
  "unit_text (fst (range_step m pc)) = unit_text (fst pc)"
  "issues (fst (range_step m pc)) = issues (fst pc)"
  by (cases pc; simp add: range_step_def comparison_bound_frame split: option.splits)+

lemma not_estab_step_frame:
  "original_line (fst (not_estab_step l pc)) = original_line (fst pc)"
  "val (fst (not_estab_step l pc)) = val (fst pc)"
  "status (fst (not_estab_step l pc)) = status (fst pc)"
  "canonical_test_name (fst (not_estab_step l pc)) = canonical_test_name (fst pc)"
  "test_name (fst (not_estab_step l pc)) = test_name (fst pc)"
  "unit_text (fst (not_estab_step l pc)) = unit_text (fst pc)"
  "issues (fst (not_estab_step l pc)) = issues (fst pc)"
  "ref_range_min (fst (not_estab_step l pc)) = ref_range_min (fst pc)"
  "ref_range_max (fst (not_estab_step l pc)) = ref_range_max (fst pc)"
  by (cases pc; simp add: not_estab_step_def split: option.splits)+

lemma status_step_frame:
  "original_line (fst (status_step l pc)) = original_line (fst pc)"
  "val (fst (status_step l pc)) = val (fst pc)"
  "canonical_test_name (fst (status_step l pc)) = canonical_test_name (fst pc)"
  "test_name (fst (status_step l pc)) = test_name (fst pc)"
  "unit_text (fst (status_step l pc)) = unit_text (fst pc)"
  "issues (fst (status_step l pc)) = issues (fst pc)"
  "ref_range_min (fst (status_step l pc)) = ref_range_min (fst pc)"
  "ref_range_max (fst (status_step l pc)) = ref_range_max (fst pc)"
  "ref_range_text (fst (status_step l pc)) = ref_range_text (fst pc)"
  by (cases pc; simp add: status_step_def split: option.splits)+

lemma abbreviation_step_frame:
  "original_line (fst (abbreviation_step n pc)) = original_line (fst pc)"
  "val (fst (abbreviation_step n pc)) = val (fst pc)"
  "status (fst (abbreviation_step n pc)) = status (fst pc)"
  "canonical_test_name (fst (abbreviation_step n pc)) = canonical_test_name (fst pc)"
  "unit_text (fst (abbreviation_step n pc)) = unit_text (fst pc)"
  "issues (fst (abbreviation_step n pc)) = issues (fst pc)"
  "ref_range_min (fst (abbreviation_step n pc)) = ref_range_min (fst pc)"
  "ref_range_max (fst (abbreviation_step n pc)) = ref_range_max (fst pc)"
  "ref_range_text (fst (abbreviation_step n pc)) = ref_range_text (fst pc)"
  by (cases pc; simp add: abbreviation_step_def split: option.splits)+

lemma auto_status_frame:
  "original_line (auto_status p) = original_line p"
  "val (auto_status p) = val p"
  "canonical_test_name (auto_status p) = canonical_test_name p"
  "test_name (auto_status p) = test_name p"
  "unit_text (auto_status p) = unit_text p"
  "issues (auto_status p) = issues p"
  "ref_range_min (auto_status p) = ref_range_min p"
  "ref_range_max (auto_status p) = ref_range_max p"
  "ref_range_text (auto_status p) = ref_range_text p"
  by (simp_all add: auto_status_def split: option.splits)

lemma check_name_frame:
  "original_line (check_name p) = original_line p"
  "val (check_name p) = val p"
  "status (check_name p) = status p"
  "canonical_test_name (check_name p) = canonical_test_name p"
  "test_name (check_name p) = test_name p"
  "unit_text (check_name p) = unit_text p"
  "ref_range_min (check_name p) = ref_range_min p"
  "ref_range_max (check_name p) = ref_range_max p"
  "ref_range_text (check_name p) = ref_range_text p"
  by (simp_all add: check_name_def)

lemma check_unit_frame:
  "original_line (check_unit p) = original_line p"
  "val (check_unit p) = val p"
  "status (check_unit p) = status p"
  "canonical_test_name (check_unit p) = canonical_test_name p"
  "test_name (check_unit p) = test_name p"
  "unit_text (check_unit p) = unit_text p"
  "ref_range_min (check_unit p) = ref_range_min p"
  "ref_range_max (check_unit p) = ref_range_max p"
  "ref_range_text (check_unit p) = ref_range_text p"
  "confidence (check_unit p) = confidence p"
  by (simp_all add: check_unit_def)

lemma check_range_frame:
  "original_line (check_range p) = original_line p"
  "val (check_range p) = val p"
  "status (check_range p) = status p"
  "canonical_test_name (check_range p) = canonical_test_name p"
  "test_name (check_range p) = test_name p"
  "unit_text (check_range p) = unit_text p"
  "ref_range_min (check_range p) = ref_range_min p"
  "ref_range_max (check_range p) = ref_range_max p"
  "ref_range_text (check_range p) = ref_range_text p"
  "confidence (check_range p) = confidence p"
  by (simp_all add: check_range_def)

lemma reduce_confidence_frame:
  "original_line (reduce_confidence p) = original_line p"
  "val (reduce_confidence p) = val p"
  "status (reduce_confidence p) = status p"
  "canonical_test_name (reduce_confidence p) = canonical_test_name p"
  "test_name (reduce_confidence p) = test_name p"
  "unit_text (reduce_confidence p) = unit_text p"
  "ref_range_min (reduce_confidence p) = ref_range_min p"
  "ref_range_max (reduce_confidence p) = ref_range_max p"
  "ref_range_text (reduce_confidence p) = ref_range_text p"
  "issues (reduce_confidence p) = issues p"
  by (simp_all add: reduce_confidence_def)

lemma validate_frame:
  "original_line (validate p) = original_line p"
  "val (validate p) = val p"
  "status (validate p) = status p"
  "canonical_test_name (validate p) = canonical_test_name p"
  "test_name (validate p) = test_name p"
  "unit_text (validate p) = unit_text p"
  "ref_range_min (validate p) = ref_range_min p"
  "ref_range_max (validate p) = ref_range_max p"
  "ref_range_text (validate p) = ref_range_text p"
  by (simp_all add: validate_def reduce_confidence_frame check_range_frame check_unit_frame
      check_name_frame)

lemma build_component_frame:
  "original_line (build_component pn m l tn v u) = l"
  "val (build_component pn m l tn v u) = v"
  "canonical_test_name (build_component pn m l tn v u) = None"
  "unit_text (build_component pn m l tn v u) = u"
  "issues (build_component pn m l tn v u) = []"
  by (simp_all add: build_component_def split_beta auto_status_frame abbreviation_step_frame
      status_step_frame not_estab_step_frame range_step_frame new_component_def)

lemma fallback_frame:
  assumes "fallback l = Some p"
  shows "original_line p = l" "canonical_test_name p = None" "unit_text p = []"
    "issues p = [js ''Could not detect unit'', js ''Could not detect reference range'']"
    "confidence p = 0.2" "ref_range_min p = None" "ref_range_max p = None" "ref_range_text p = None"
  using assms by (auto simp: fallback_def new_component_def split: option.splits)

lemma extract_line_cases:
  assumes "extract_line l = Some p"
  obtains (pattern) pn m tn v u where "first_match patterns l = Some (pn, m, tn, v, u)"
      "p = build_component pn m l tn v u"
  | (fallback) "first_match patterns l = None" "fallback l = Some p"
  using assms by (auto simp: extract_line_def try_patterns_def split: option.splits)

lemma parse_line_Parsed:
  assumes "parse_line cfg i line = Parsed p"
  obtains q where "extract_line (trim line) = Some q" "p = validate q" "trim line \<noteq> []"
  using assms by (auto simp: parse_line_def Let_def split: if_splits option.splits)

lemma extract_line_original: "extract_line l = Some q \<Longrightarrow> original_line q = l"
  by (erule extract_line_cases) (simp_all add: build_component_frame fallback_frame)

section \<open>The confidence before validation\<close>

lemma range_step_conf: "snd pc \<le> snd (range_step m pc)"
  by (cases pc) (simp add: range_step_def split: option.splits)

lemma not_estab_step_conf: "snd pc \<le> snd (not_estab_step l pc)"
  by (cases pc) (simp add: not_estab_step_def split: option.splits)

lemma status_step_conf: "snd pc \<le> snd (status_step l pc)"
  by (cases pc) (simp add: status_step_def split: option.splits)

lemma abbreviation_step_conf: "snd pc \<le> snd (abbreviation_step n pc)"
  by (cases pc) (simp add: abbreviation_step_def split: option.splits)

lemma base_confidence_ge: "1/2 \<le> base_confidence pn u"
  by (simp add: base_confidence_def)

lemma build_component_conf: "1/2 \<le> confidence (build_component pn m l tn v u)"
proof -
  let ?s0 = "(new_component tn v u l, base_confidence pn u)"
  let ?s4 = "abbreviation_step tn (status_step l (not_estab_step l (range_step m ?s0)))"
  have "1/2 \<le> snd ?s0" using base_confidence_ge[of pn u] by simp
  also have "\<dots> \<le> snd (range_step m ?s0)" by (rule range_step_conf)
  also have "\<dots> \<le> snd (not_estab_step l (range_step m ?s0))" by (rule not_estab_step_conf)
  also have "\<dots> \<le> snd (status_step l (not_estab_step l (range_step m ?s0)))"
    by (rule status_step_conf)
  also have "\<dots> \<le> snd ?s4" by (rule abbreviation_step_conf)
  finally have "1/2 \<le> snd ?s4" .
  then show ?thesis
    by (simp add: build_component_def split_beta)
qed

lemma extract_line_conf: "extract_line l = Some p \<Longrightarrow> 1/10 \<le> confidence p"
proof (erule extract_line_cases)
  fix pn m tn v u
  assume "p = build_component pn m l tn v u"
  then show ?thesis using build_component_conf[of pn m l tn v u] by simp
next
  assume "fallback l = Some p"
  then show ?thesis by (simp add: fallback_frame)
qed

lemma check_name_conf: "0 \<le> confidence p \<Longrightarrow> confidence (check_name p) \<le> confidence p"
  by (simp add: check_name_def)

lemma reduce_confidence_conf:
  "confidence (reduce_confidence p) \<le> max (1/10) (confidence p)"
proof -
  have "0 \<le> min (rat_of_nat (length (issues p)) * 0.15) 0.5" by simp
  then show ?thesis by (simp add: reduce_confidence_def max_def)
qed

section \<open>The value group holds digits, periods and commas\<close>











section \<open>Numbers read from the value group\<close>














section \<open>Range and status of a pattern record\<close>











lemma build_component_fields:
  "ref_range_min (build_component pn m l tn v u) = ref_range_min (fst (range_step m (new_component tn v u l, base_confidence pn u)))"
  "ref_range_max (build_component pn m l tn v u) = ref_range_max (fst (range_step m (new_component tn v u l, base_confidence pn u)))"
  by (simp_all add: build_component_def split_beta auto_status_frame abbreviation_step_frame
      status_step_frame not_estab_step_frame)



section \<open>The comparison expression on a comparison text\<close>










lemma new_component_fields:
  "ref_range_min (new_component tn v u l) = None"
  "ref_range_max (new_component tn v u l) = None"
  "ref_range_text (new_component tn v u l) = None"
  "status (new_component tn v u l) = None"
  "val (new_component tn v u l) = v"
  by (simp_all add: new_component_def)



section \<open>Lines of the colon layout\<close>




lemma head_not:
  "list_all q xs \<Longrightarrow> (\<And>c. q c \<Longrightarrow> \<not> p c) \<Longrightarrow> \<not> p y
    \<Longrightarrow> (case xs @ y # zs of [] \<Rightarrow> True | h # _ \<Rightarrow> \<not> p h)"
  by (cases xs) auto















section \<open>Fallback records and enrichment\<close>

lemma fallback_validated_issues:
  assumes "fallback l = Some p"
  shows "issues (validate p) =
     [js ''Could not detect unit'', js ''Could not detect reference range'']
     @ (if length (test_name p) < 2 then [js ''Test name too short''] else [])
     @ [js ''Unit not detected'', js ''Reference range not detected'']"
proof -
  note f = fallback_frame[OF assms]
  have 1: "issues (check_name p) = issues p @ (if length (test_name p) < 2 then [js ''Test name too short''] else [])"
    by (simp add: check_name_def)
  have 2: "issues (check_unit (check_name p)) = issues (check_name p) @ [js ''Unit not detected'']"
    using f by (simp add: check_unit_def check_name_frame)
  have 3: "issues (check_range (check_unit (check_name p))) = issues (check_unit (check_name p)) @ [js ''Reference range not detected'']"
    using f by (simp add: check_range_def check_unit_frame check_name_frame num_truthy_def truthy_def)
  show ?thesis
    unfolding validate_def using f(4) by (simp add: reduce_confidence_frame 1 2 3)
qed

lemma issue_texts_distinct:
  "js ''Unit not detected'' \<noteq> js ''Could not detect unit''"
  "js ''Unit not detected'' \<noteq> js ''Could not detect reference range''"
  "js ''Unit not detected'' \<noteq> js ''Test name too short''"
  "js ''Unit not detected'' \<noteq> js ''Reference range not detected''"
  "js ''Could not detect unit'' \<noteq> js ''Could not detect reference range''"
  "js ''Could not detect unit'' \<noteq> js ''Test name too short''"
  "js ''Could not detect unit'' \<noteq> js ''Reference range not detected''"
  by (simp_all add: js_def)

lemma extract_line_canonical: "extract_line l = Some q \<Longrightarrow> canonical_test_name q = None"
  by (erule extract_line_cases) (simp_all add: build_component_frame fallback_frame)

lemma parse_line_canonical:
  assumes "parse_line cfg i line = Parsed c"
  shows "canonical_test_name c = None"
proof -
  from assms obtain q where "extract_line (trim line) = Some q" "c = validate q"
    by (rule parse_line_Parsed)
  then show ?thesis by (simp add: validate_frame extract_line_canonical)
qed

lemma enrich_component_no_match:
  "searchTests (test_name c) 1 = [] \<Longrightarrow> enrich_component searchTests c = c"
  by (simp add: enrich_component_def)

lemma enrich_component_test_name:
  "test_name (enrich_component searchTests c) = test_name c"
  by (simp add: enrich_component_def Let_def split: list.splits)

lemma enrich_component_match:
  "searchTests (test_name c) 1 = t # ts \<Longrightarrow>
     canonical_test_name (enrich_component searchTests c) = Some (lib_test_name t)"
  by (simp add: enrich_component_def Let_def)

section \<open>A numeric pair together with a range text\<close>

lemma comparison_bound_one:
  "ref_range_min p = None \<Longrightarrow> ref_range_max p = None \<Longrightarrow>
     ref_range_min (comparison_bound t p) = None \<or> ref_range_max (comparison_bound t p) = None"
  by (simp add: comparison_bound_def split: option.splits list.splits)

lemma range_step_states:
  assumes "ref_range_min p = None" "ref_range_max p = None" "ref_range_text p = None"
  shows "(ref_range_min (fst (range_step m (p, c))) \<noteq> None \<and> ref_range_max (fst (range_step m (p, c))) \<noteq> None
            \<and> ref_range_text (fst (range_step m (p, c))) = None)
       \<or> (ref_range_min (fst (range_step m (p, c))) = None \<or> ref_range_max (fst (range_step m (p, c))) = None)"
proof (cases "truthy (grp m 4) \<and> truthy (grp m 5)")
  case True
  then show ?thesis using assms by (auto simp: range_step_def split: option.splits)
next
  case False
  then have f: "(truthy (grp m 4) \<and> truthy (grp m 5)) = False" by simp
  show ?thesis
  proof (cases "truthy (grp m 6)")
    case True
    have "ref_range_min (p\<lparr>ref_range_text := Some (trim (group_text (grp m 6)))\<rparr>) = None"
      "ref_range_max (p\<lparr>ref_range_text := Some (trim (group_text (grp m 6)))\<rparr>) = None"
      using assms by simp_all
    from comparison_bound_one[OF this] True show ?thesis by (simp add: range_step_def f)
  next
    case False
    then show ?thesis using assms by (simp add: range_step_def f)
  qed
qed

lemma not_estab_step_text:
  "ref_range_text (fst (not_estab_step l pc)) \<noteq> ref_range_text (fst pc) \<Longrightarrow>
     \<not> num_truthy (ref_range_min (fst pc)) \<and> \<not> num_truthy (ref_range_max (fst pc))
     \<and> ref_range_text (fst (not_estab_step l pc)) = Some (js ''Not Estab.'')"
  by (cases pc) (auto simp: not_estab_step_def split: option.splits if_splits)

lemma num_truthy_zero: "\<not> num_truthy (Some x) \<longleftrightarrow> x = Fin 0"
  by (simp add: num_truthy_def)

lemma build_component_range_text:
  "ref_range_text (build_component pn m l tn v u)
     = ref_range_text (fst (not_estab_step l (range_step m (new_component tn v u l, base_confidence pn u))))"
  by (simp add: build_component_def split_beta auto_status_frame abbreviation_step_frame
      status_step_frame)

text \<open>Outside the case of two zero bounds, a full numeric pair and a range text never meet.\<close>

lemma pair_with_text_only_at_zero:
  assumes "parse_line cfg i line = Parsed p"
      and "ref_range_min p \<noteq> None" "ref_range_max p \<noteq> None" "ref_range_text p \<noteq> None"
  shows "ref_range_min p = Some (Fin 0) \<and> ref_range_max p = Some (Fin 0)
       \<and> ref_range_text p = Some (js ''Not Estab.'')"
proof -
  from assms(1) obtain q where q: "extract_line (trim line) = Some q" "p = validate q"
    by (rule parse_line_Parsed)
  from q(1) show ?thesis
  proof (cases rule: extract_line_cases)
    case fallback
    then show ?thesis using assms(2) q(2) by (simp add: validate_frame fallback_frame)
  next
    case (pattern pn m tn v u)
    let ?s0 = "(new_component tn v u (trim line), base_confidence pn u)"
    let ?r = "fst (range_step m ?s0)"
    have mn: "ref_range_min p = ref_range_min ?r" and mx: "ref_range_max p = ref_range_max ?r"
      unfolding q(2) pattern(2) by (simp_all add: validate_frame build_component_fields)
    have tx: "ref_range_text p = ref_range_text (fst (not_estab_step (trim line) (range_step m ?s0)))"
      unfolding q(2) pattern(2) by (simp add: validate_frame build_component_range_text)
    from range_step_states[of "new_component tn v u (trim line)" m "base_confidence pn u"]
    have "ref_range_text ?r = None"
      using assms(2,3) mn mx by (auto simp: new_component_fields)
    with assms(4) tx have "ref_range_text (fst (not_estab_step (trim line) (range_step m ?s0))) \<noteq> ref_range_text ?r"
      by simp
    from not_estab_step_text[OF this] assms(2,3) show ?thesis
      unfolding mn mx tx by (auto simp: num_truthy_zero)
  qed
qed

section \<open>Properties\<close>



text \<open>
  C2. The validation never raises the confidence: for the record of any line, from a
  pattern or from the fallback, the confidence after the four validation steps (name
  length, unit, range, reduction by the number of issues with floor 0.1) is at most the
  confidence before them.
\<close>

theorem validator_never_raises_confidence:
  assumes "extract_line l = Some p"
  shows "confidence (validate p) \<le> confidence p"
proof -
  have lo: "1/10 \<le> confidence p" using assms by (rule extract_line_conf)
  have "confidence (validate p) \<le> max (1/10) (confidence (check_range (check_unit (check_name p))))"
    unfolding validate_def by (rule reduce_confidence_conf)
  also have "\<dots> = max (1/10) (confidence (check_name p))"
    by (simp add: check_range_frame check_unit_frame)
  also have "\<dots> \<le> max (1/10) (confidence p)"
    using check_name_conf[of p] lo by simp
  also have "\<dots> = confidence p" using lo by simp
  finally show ?thesis .
qed

theorem validator_never_raises_confidence_witness:
  "\<exists>p. extract_line (js ''Glucose 5'') = Some p \<and> confidence p = 1/5
      \<and> confidence (validate p) \<le> confidence p"
proof -
  have h: "extract_line (js ''Glucose 5'') = Some
   \<lparr>test_name = js ''Glucose'', abbrev = None, canonical_test_name = None, val = Fin 5,
    unit_text = [], ref_range_min = None, ref_range_max = None, ref_range_text = None,
    status = None, category = None, loinc_code = None, original_line = js ''Glucose 5'',
    confidence = 1/5,
    issues = [js ''Could not detect unit'', js ''Could not detect reference range'']\<rparr>"
    by code_simp
  from validator_never_raises_confidence[OF h] h show ?thesis by simp
qed



text \<open>
  C4 fails on the code. The comma layout captures the range field as group 4 and the status
  field as group 5, and the range step reads groups 4 and 5 as minimum and maximum. For
  the line "BUN,18,mg/dL,7-20,Normal", the example of the source's own comment, group 5
  is "Normal", not a number: neither bound is stored and the validation adds "Reference
  range not detected".
\<close>

theorem csv_range_not_populated:
  "components (parseText initial_settings (js ''BUN,18,mg/dL,7-20,Normal'')) =
    [\<lparr>test_name = js ''BUN'', abbrev = None, canonical_test_name = None, val = Fin 18,
      unit_text = js ''mg/dL'', ref_range_min = None, ref_range_max = None,
      ref_range_text = None, status = Some (js ''normal''), category = None, loinc_code = None,
      original_line = js ''BUN,18,mg/dL,7-20,Normal'', confidence = 3/5,
      issues = [js ''Reference range not detected'']\<rparr>]"
  by code_simp

text \<open>
  C5, as the claim states it, fails: the validation does not look at the issues already
  present. For the line "Glucose 5", which only the fallback accepts, the final list
  holds the seeded "Could not detect unit" and the appended "Unit not detected": the
  missing unit is reported twice.
\<close>

theorem missing_unit_reported_twice:
  "map issues (components (parseText initial_settings (js ''Glucose 5''))) =
     [[js ''Could not detect unit'', js ''Could not detect reference range'',
       js ''Unit not detected'', js ''Reference range not detected'']]
   \<and> map (length \<circ> filter reports_missing_unit \<circ> issues)
         (components (parseText initial_settings (js ''Glucose 5''))) = [2]"
  by code_simp

text \<open>
  C5, amended. For every record of the fallback, the validated list of issues holds
  "Could not detect unit" exactly once and "Unit not detected" exactly once: each wording
  occurs once, and the missing unit is reported by two entries.
\<close>

theorem fallback_reports_missing_unit_twice:
  assumes "fallback l = Some p"
  shows "count_list (issues (validate p)) (js ''Could not detect unit'') = 1
       \<and> count_list (issues (validate p)) (js ''Unit not detected'') = 1
       \<and> length (filter reports_missing_unit (issues (validate p))) = 2"
  unfolding fallback_validated_issues[OF assms] reports_missing_unit_def
  using issue_texts_distinct by (simp add: eq_commute)

theorem fallback_reports_missing_unit_twice_witness:
  "\<exists>p. fallback (js ''Glucose 5'') = Some p
      \<and> count_list (issues (validate p)) (js ''Could not detect unit'') = 1
      \<and> count_list (issues (validate p)) (js ''Unit not detected'') = 1
      \<and> length (filter reports_missing_unit (issues (validate p))) = 2"
proof -
  have h: "fallback (js ''Glucose 5'') = Some
   \<lparr>test_name = js ''Glucose'', abbrev = None, canonical_test_name = None, val = Fin 5,
    unit_text = [], ref_range_min = None, ref_range_max = None, ref_range_text = None,
    status = None, category = None, loinc_code = None, original_line = js ''Glucose 5'',
    confidence = 1/5,
    issues = [js ''Could not detect unit'', js ''Could not detect reference range'']\<rparr>"
    by code_simp
  from fallback_reports_missing_unit_twice[OF h] h show ?thesis by blast
qed

text \<open>
  C6 fails on the code. The search for "Not Estab." is guarded by a test that the three
  range fields are falsy, and the number zero is falsy: for a range written "(0-0)" both
  bounds are stored, the guard still passes, and the free text "Not Estab." is stored
  next to the full numeric pair. By \<open>pair_with_text_only_at_zero\<close> this is the only way
  for a record to hold both.
\<close>

theorem zero_range_with_not_estab:
  "components (parseText initial_settings (js ''Blasts: 0 % (0-0) (Not Estab.)'')) =
    [\<lparr>test_name = js ''Blasts'', abbrev = None, canonical_test_name = None, val = Fin 0,
      unit_text = js ''%'', ref_range_min = Some (Fin 0), ref_range_max = Some (Fin 0),
      ref_range_text = Some (js ''Not Estab.''), status = Some (js ''normal''), category = None,
      loinc_code = None, original_line = js ''Blasts: 0 % (0-0) (Not Estab.)'', confidence = 1,
      issues = []\<rparr>]"
  by code_simp

text \<open>
  C7, as the claim states it, fails: the record keeps the trimmed line. A line with two
  leading blanks gives a record whose \<open>original_line\<close> has lost them.
\<close>

theorem original_line_not_verbatim:
  "map original_line (components (parseText initial_settings (js ''  Hemoglobin 14.5 g/dL'')))
     = [js ''Hemoglobin 14.5 g/dL'']
   \<and> js ''Hemoglobin 14.5 g/dL'' \<noteq> js ''  Hemoglobin 14.5 g/dL''"
  by code_simp

text \<open>
  C7, amended. For every line that gives a record, from a pattern or from the fallback,
  \<open>original_line\<close> is the line without its leading and trailing white space
  (\<^verbatim>\<open>line.trim()\<close>), and the enrichment keeps it.
\<close>

theorem original_line_is_trimmed:
  assumes "parse_line cfg i line = Parsed p"
  shows "original_line p = trim line
       \<and> original_line (enrich_component searchTests p) = trim line"
proof -
  from assms obtain q where q: "extract_line (trim line) = Some q" "p = validate q"
    by (rule parse_line_Parsed)
  have "original_line p = trim line"
    using q by (simp add: validate_frame extract_line_original)
  moreover have "original_line (enrich_component searchTests p) = original_line p"
    by (simp add: enrich_component_def Let_def split: list.splits)
  ultimately show ?thesis by simp
qed

theorem original_line_is_trimmed_witness:
  "\<exists>p. parse_line initial_settings 0 (js ''  Hemoglobin 14.5 g/dL'') = Parsed p
      \<and> original_line p = js ''Hemoglobin 14.5 g/dL''
      \<and> trim (js ''  Hemoglobin 14.5 g/dL'') = js ''Hemoglobin 14.5 g/dL''"
proof -
  have h: "parse_line initial_settings 0 (js ''  Hemoglobin 14.5 g/dL'') = Parsed
   \<lparr>test_name = js ''Hemoglobin'', abbrev = None, canonical_test_name = None,
    val = Fin (29/2), unit_text = js ''g/dL'', ref_range_min = None, ref_range_max = None,
    ref_range_text = None, status = None, category = None, loinc_code = None,
    original_line = js ''Hemoglobin 14.5 g/dL'', confidence = 11/20,
    issues = [js ''Reference range not detected'']\<rparr>"
    by code_simp
  have t: "trim (js ''  Hemoglobin 14.5 g/dL'') = js ''Hemoglobin 14.5 g/dL''"
    by code_simp
  from original_line_is_trimmed[OF h] h t show ?thesis by simp
qed

text \<open>
  C8. For every record of a line and every search function of the test library, the
  enrichment keeps \<open>test_name\<close>; \<open>canonical_test_name\<close> is set exactly when the search
  returns a match, to the name of the first match; and when the search returns nothing the
  record is unchanged in every field.
\<close>

theorem enrichment_keeps_name_sets_canonical:
  assumes "parse_line cfg i line = Parsed c"
  shows "test_name (enrich_component searchTests c) = test_name c
       \<and> (canonical_test_name (enrich_component searchTests c) \<noteq> None
            \<longleftrightarrow> searchTests (test_name c) 1 \<noteq> [])
       \<and> (\<forall>t ts. searchTests (test_name c) 1 = t # ts \<longrightarrow>
            canonical_test_name (enrich_component searchTests c) = Some (lib_test_name t))
       \<and> (searchTests (test_name c) 1 = [] \<longrightarrow> enrich_component searchTests c = c)"
proof -
  have none: "canonical_test_name c = None" using assms by (rule parse_line_canonical)
  show ?thesis
  proof (cases "searchTests (test_name c) 1")
    case Nil
    then show ?thesis
      using none by (simp add: enrich_component_no_match)
  next
    case (Cons t ts)
    then show ?thesis
      by (simp add: enrich_component_test_name enrich_component_match)
  qed
qed

theorem enrichment_keeps_name_sets_canonical_witness:
  "\<exists>c. parse_line initial_settings 0 (js ''Hgb 14.5 g/dL'') = Parsed c
      \<and> test_name (enrich_component (\<lambda>n k. if n = js ''Hgb'' then [hemoglobin_item] else []) c) = js ''Hgb''
      \<and> canonical_test_name (enrich_component (\<lambda>n k. if n = js ''Hgb'' then [hemoglobin_item] else []) c)
          = Some (js ''Hemoglobin'')
      \<and> enrich_component (\<lambda>n k. []) c = c"
proof -
  have h: "parse_line initial_settings 0 (js ''Hgb 14.5 g/dL'') = Parsed
   \<lparr>test_name = js ''Hgb'', abbrev = None, canonical_test_name = None,
    val = Fin (29/2), unit_text = js ''g/dL'', ref_range_min = None, ref_range_max = None,
    ref_range_text = None, status = None, category = None, loinc_code = None,
    original_line = js ''Hgb 14.5 g/dL'', confidence = 11/20,
    issues = [js ''Reference range not detected'']\<rparr>"
    by code_simp
  have i: "lib_test_name hemoglobin_item = js ''Hemoglobin''"
    by (simp add: hemoglobin_item_def)
  from enrichment_keeps_name_sets_canonical[OF h, of "\<lambda>n k. if n = js ''Hgb'' then [hemoglobin_item] else []"]
       enrichment_keeps_name_sets_canonical[OF h, of "\<lambda>n k. []"] h i
  show ?thesis by simp
qed






end
